theory Spec2Isabelle
  imports Complex_Main "HOL-Library.Char_ord" "HOL-Library.List_Lexorder"
begin

section \<open>JavaScript values used by the program\<close>

text \<open>
  A JavaScript string is modelled as a \<^typ>\<open>string\<close>: one \<^typ>\<open>char\<close> per code unit, so
  that \<open>s.length\<close> is \<^term>\<open>length s\<close> and \<open>s.substring(0, n)\<close> is \<^term>\<open>take n s\<close>.
  Numbers that count (sizes, timestamps) are natural numbers. The optional fields of the
  TypeScript interfaces (\<open>f?: T\<close>) are \<open>option\<close> values, \<open>undefined\<close> being \<^term>\<open>None\<close>.
  The thrown values are collected in one datatype.
\<close>

datatype js_error =
    Error string          \<comment> \<open>\<open>new Error(message)\<close>\<close>
  | TypeError string      \<comment> \<open>raised by the runtime, e.g. a property read on \<open>undefined\<close>\<close>
  | DOMException string   \<comment> \<open>\<open>request.error\<close> of an IndexedDB request, by name\<close>

fun message :: "js_error \<Rightarrow> string" where
  "message (Error m) = m"
| "message (TypeError m) = m"
| "message (DOMException m) = m"

text \<open>
  White space as \<open>\s\<close> and \<open>String.prototype.trim\<close> see it, among the code units a
  \<^typ>\<open>char\<close> can hold: TAB, LF, VT, FF, CR, SPACE and NBSP.
\<close>

definition isSpace :: "char \<Rightarrow> bool" where
  "isSpace c \<longleftrightarrow> c \<in> {CHR 0x09, CHR 0x0A, CHR 0x0B, CHR 0x0C, CHR 0x0D, CHR 0x20, CHR 0xA0}"

definition trim :: "string \<Rightarrow> string" where
  "trim s = rev (dropWhile isSpace (rev (dropWhile isSpace s)))"

text \<open>\<open>Array.prototype.join\<close> on an array of strings.\<close>

fun join :: "string \<Rightarrow> string list \<Rightarrow> string" where
  "join sep [] = []"
| "join sep [x] = x"
| "join sep (x # y # ys) = x @ sep @ join sep (y # ys)"

text \<open>\<open>Array.prototype.findIndex\<close>: the first index whose element satisfies the predicate, or \<open>-1\<close>.\<close>

fun findIndex :: "('a \<Rightarrow> bool) \<Rightarrow> 'a list \<Rightarrow> int" where
  "findIndex P [] = - 1"
| "findIndex P (x # xs) =
     (if P x then 0 else (let i = findIndex P xs in if i < 0 then - 1 else i + 1))"

text \<open>
  \<open>Array.prototype.slice(start)\<close> with one argument: a negative start counts from the end,
  and the start is clamped to the array.
\<close>

definition slice :: "int \<Rightarrow> 'a list \<Rightarrow> 'a list" where
  "slice start xs =
     (let len = int (length xs);
          k = (if start < 0 then max (len + start) 0 else min start len)
      in drop (nat k) xs)"

text \<open>The condition \<open>if (s)\<close> on a string that may be \<open>null\<close>: false for \<open>null\<close> and for \<open>""\<close>.\<close>

fun truthy_string :: "string option \<Rightarrow> bool" where
  "truthy_string None = False"
| "truthy_string (Some s) = (s \<noteq> [])"

text \<open>\<open>s || d\<close> on such a string.\<close>

fun or_else :: "string option \<Rightarrow> string \<Rightarrow> string" where
  "or_else None d = d"
| "or_else (Some s) d = (if s = [] then d else s)"

section \<open>The data model (types.ts)\<close>

text \<open>
  Each interface is a record. Record fields are global constants in Isabelle, so the field
  \<open>f\<close> of an interface is named with a short prefix of the interface (\<open>msg_text\<close> for
  \<open>ChatMessage.text\<close>, \<open>ins_content\<close> for \<open>SharedInsight.content\<close>, and so on).
\<close>

record StoredFile =
  sf_id :: string
  sf_name :: string
  sf_type :: string
  sf_size :: nat
  sf_content :: string
  sf_uploadedAt :: nat

record KnowledgeBase =
  kb_id :: string
  kb_name :: string
  kb_createdAt :: nat
  kb_files :: "StoredFile list"

record Citation =
  cit_source :: string
  cit_context :: string

datatype attachment_type = Image | File

record ChatAttachment =
  att_id :: string
  att_type :: attachment_type
  att_mimeType :: string
  att_name :: string
  att_content :: string

datatype role = User | Model

datatype feedback = thumbs_up | thumbs_down

record ChatMessage =
  msg_id :: string
  msg_role :: role
  msg_text :: string
  msg_timestamp :: nat
  msg_isError :: "bool option"
  msg_citations :: "Citation list option"
  msg_attachments :: "ChatAttachment list option"
  msg_feedback :: "feedback option"

record User =
  user_id :: string
  username :: string
  user_createdAt :: nat

record SharedInsight =
  ins_id :: string
  ins_content :: string
  ins_timestamp :: nat
  ins_sourceBaseId :: "string option"

datatype ModelId = fast | pro

section \<open>The persistent store (utils/storage.ts)\<close>

subsection \<open>IndexedDB as the program uses it\<close>

text \<open>
  An object store holds its records in ascending key order, one record per key; keys are
  strings, compared code unit by code unit. \<open>getAll\<close> returns the values in that order.
\<close>

type_synonym 'v records = "(string \<times> 'v) list"

fun store_put :: "string \<Rightarrow> 'v \<Rightarrow> 'v records \<Rightarrow> 'v records" where
  "store_put k v [] = [(k, v)]"
| "store_put k v ((k', v') # r) =
     (if k = k' then (k, v) # r
      else if k < k' then (k, v) # (k', v') # r
      else (k', v') # store_put k v r)"

text \<open>
  The database of \<open>getDB\<close>: the three object stores with a key path that
  \<open>onupgradeneeded\<close> creates and the properties below use (\<open>users\<close> keyed by \<open>username\<close>,
  \<open>knowledge_bases\<close> and \<open>shared_insights\<close> keyed by \<open>id\<close>), together with what the
  environment decides: whether \<open>indexedDB.open\<close>, a read request or a write request fires
  \<open>onerror\<close>, and with which \<open>error\<close>.
\<close>

record idb =
  open_error :: "js_error option"
  read_error :: "js_error option"
  write_error :: "js_error option"
  users :: "User records"
  knowledge_bases :: "KnowledgeBase records"
  shared_insights :: "SharedInsight records"

text \<open>
  A store name of \<open>STORES\<close> stands for the object store it names: how to read it off the
  database, how to write it back, its key path (\<open>None\<close> for out-of-line keys), and which
  of its values JavaScript takes for false in \<open>req.result || null\<close>.
\<close>

record 'v store =
  records_of :: "idb \<Rightarrow> 'v records"
  with_records :: "'v records \<Rightarrow> idb \<Rightarrow> idb"
  keyPath :: "('v \<Rightarrow> string) option"
  truthy :: "'v \<Rightarrow> bool"

definition STORES_USERS :: "User store" where
  "STORES_USERS =
     \<lparr>records_of = users, with_records = (\<lambda>r db. db\<lparr>users := r\<rparr>),
      keyPath = Some username, truthy = (\<lambda>_. True)\<rparr>"


definition STORES_INSIGHTS :: "SharedInsight store" where
  "STORES_INSIGHTS =
     \<lparr>records_of = shared_insights, with_records = (\<lambda>r db. db\<lparr>shared_insights := r\<rparr>),
      keyPath = Some ins_id, truthy = (\<lambda>_. True)\<rparr>"

subsection \<open>Generic helpers\<close>

text \<open>\<open>getDB\<close>: the promise rejects with \<open>request.error\<close> or resolves with the database.\<close>

definition getDB :: "idb \<Rightarrow> js_error + idb" where
  "getDB db = (case open_error db of Some e \<Rightarrow> Inl e | None \<Rightarrow> Inr db)"

text \<open>
  \<open>get\<close>: \<open>onsuccess\<close> resolves with \<open>req.result || null\<close>, \<open>onerror\<close> resolves with
  \<open>null\<close>. \<open>Inl\<close> is a rejected promise.
\<close>

definition get :: "'v store \<Rightarrow> idb \<Rightarrow> string \<Rightarrow> js_error + 'v option" where
  "get st db0 key =
     (case getDB db0 of
        Inl e \<Rightarrow> Inl e
      | Inr db \<Rightarrow>
          (case read_error db of
             Some e \<Rightarrow> Inr None
           | None \<Rightarrow>
               (case map_of (records_of st db) key of
                  None \<Rightarrow> Inr None
                | Some v \<Rightarrow> Inr (if truthy st v then Some v else None))))"

text \<open>
  \<open>put\<close>: \<open>key ? store.put(value, key) : store.put(value)\<close>. IndexedDB throws a
  \<open>DataError\<close> inside the promise executor (a rejection) when a key is given to a store
  with a key path, or none to a store without one. \<open>onerror\<close> rejects with \<open>req.error\<close>,
  \<open>onsuccess\<close> resolves; the result is then the database after the write.
\<close>

definition request_key :: "'v store \<Rightarrow> 'v \<Rightarrow> string option \<Rightarrow> js_error + string" where
  "request_key st v key =
     (case (if truthy_string key then key else None, keyPath st) of
        (Some k, None) \<Rightarrow> Inr k
      | (Some k, Some path) \<Rightarrow> Inl (DOMException ''DataError'')
      | (None, Some path) \<Rightarrow> Inr (path v)
      | (None, None) \<Rightarrow> Inl (DOMException ''DataError''))"

definition put :: "'v store \<Rightarrow> idb \<Rightarrow> 'v \<Rightarrow> string option \<Rightarrow> js_error + idb" where
  "put st db0 v key =
     (case getDB db0 of
        Inl e \<Rightarrow> Inl e
      | Inr db \<Rightarrow>
          (case request_key st v key of
             Inl e \<Rightarrow> Inl e
           | Inr k \<Rightarrow>
               (case write_error db of
                  Some e \<Rightarrow> Inl e
                | None \<Rightarrow> Inr (with_records st (store_put k v (records_of st db)) db))))"

text \<open>\<open>getAll\<close>: \<open>onsuccess\<close> resolves with \<open>req.result || []\<close>, \<open>onerror\<close> with \<open>[]\<close>.\<close>

definition getAll :: "'v store \<Rightarrow> idb \<Rightarrow> js_error + 'v list" where
  "getAll st db0 =
     (case getDB db0 of
        Inl e \<Rightarrow> Inl e
      | Inr db \<Rightarrow>
          (case read_error db of
             Some e \<Rightarrow> Inr []
           | None \<Rightarrow> Inr (map snd (records_of st db))))"

subsection \<open>Users\<close>

text \<open>
  \<open>registerUser\<close> and \<open>loginUser\<close>. The identifier of \<open>crypto.randomUUID()\<close> and the
  time of \<open>Date.now()\<close> are arguments. The result pairs the promise's outcome with the
  database afterwards.
\<close>

definition registerUser :: "string \<Rightarrow> nat \<Rightarrow> idb \<Rightarrow> string \<Rightarrow> (js_error + User) \<times> idb" where
  "registerUser uuid now db name =
     (case get STORES_USERS db name of
        Inl e \<Rightarrow> (Inl e, db)
      | Inr (Some existing) \<Rightarrow> (Inl (Error ''Username already taken''), db)
      | Inr None \<Rightarrow>
          (let newUser = \<lparr>user_id = uuid, username = name, user_createdAt = now\<rparr>
           in case put STORES_USERS db newUser None of
                Inl e \<Rightarrow> (Inl e, db)
              | Inr db' \<Rightarrow> (Inr newUser, db')))"


subsection \<open>Knowledge bases and shared insights\<close>



definition getSharedInsights :: "idb \<Rightarrow> js_error + SharedInsight list" where
  "getSharedInsights db = getAll STORES_INSIGHTS db"

definition addSharedInsight :: "idb \<Rightarrow> SharedInsight \<Rightarrow> js_error + idb" where
  "addSharedInsight db insight = put STORES_INSIGHTS db insight None"

section \<open>The model backend (services/gemini.ts)\<close>

subsection \<open>Request and response of \<open>ai.models.generateContent\<close>\<close>

datatype part = Text string | InlineData string string  \<comment> \<open>\<open>{text}\<close>, \<open>{inlineData: {mimeType, data}}\<close>\<close>

record Content =
  c_role :: role
  c_parts :: "part list"

datatype tool = googleSearch

record GenerateContentRequest =
  req_model :: string
  req_contents :: "Content list"
  req_systemInstruction :: string
  req_temperature :: real
  req_tools :: "tool list option"

record Web =
  web_uri :: "string option"
  web_title :: "string option"

record GroundingChunk =
  chunk_web :: "Web option"

record GroundingMetadata =
  groundingChunks :: "GroundingChunk list option"

record Candidate =
  groundingMetadata :: "GroundingMetadata option"

record GenerateContentResponse =
  resp_text :: "string option"
  resp_candidates :: "Candidate list option"

text \<open>
  The value a failed call throws is known to the program by its \<open>message\<close> property
  only, which may be missing.
\<close>

datatype thrown = Thrown "string option"

text \<open>
  The call itself is the environment's: a function from the API key and the request to
  the response or the thrown value.
\<close>

type_synonym backend = "string \<Rightarrow> GenerateContentRequest \<Rightarrow> thrown + GenerateContentResponse"

subsection \<open>The system instruction\<close>

text \<open>
  The template literal, cut at \<open>${insightText}\<close>. Its characters beyond ASCII (the
  apostrophe U+2019, the bullet U+2022, the dash U+2E3B and the emoji) do not fit one
  \<^typ>\<open>char\<close> and are written as their UTF-8 bytes; no property below looks inside them.
\<close>

definition bullet :: string where
  "bullet = [CHR 0xE2, CHR 0x80, CHR 0xA2]"

definition template_head :: string where
  "template_head = join [CHR 0x0A]
    [''You are Shape AI Chat, a multi-user internal AI assistant for our team.'',
     ''Your job is to provide accurate, contextual, and continuously improving answers based on:'',
     ''1. Public Knowledge Base (shared RAG)'',
     ''2. Private User Chats (not visible to others)'',
     ''3. Shared Learning (model improves using every user'' @ [CHR 0xE2, CHR 0x80, CHR 0x99] @ ''s conversations)'',
     ''4. Thumbs-up feedback loop (reinforces good answers)'',
     '''',
     '''']"

definition template_tail :: string where
  "template_tail = join [CHR 0x0A]
    ['''',
     '''',
     [CHR 0xE2, CHR 0xB8, CHR 0xBB],
     '''',
     ''CORE BEHAVIOR RULES'',
     '''',
     ''1. User Authentication & Session Handling'',
     ''   - You are interacting with a specific logged-in user.'',
     ''   - Respect their private chat history context.'',
     '''',
     ''2. Public Knowledge Base (Shared RAG Layer)'',
     ''   - Use the provided documents (files) as the primary shared truth.'',
     ''   - All users share these documents.'',
     '''',
     ''3. Handling File Uploads / Images (Ephemeral)'',
     ''   - Files uploaded in this session are TEMPORARY.'',
     ''   - Do NOT store them or assume they persist.'',
     ''   - Use them immediately for analysis.'',
     '''',
     ''4. Shared Learning From All Users'',
     ''   - The '' @ [CHR 0x22] @ ''TEAM SHARED LEARNINGS'' @ [CHR 0x22] @ '' section above contains insights derived from thumbs-up feedback.'',
     ''   - Use these to align with team terminology, processes, and corrections.'',
     '''',
     ''5. Web Browsing'',
     ''   - If the tool '' @ [CHR 0x27] @ ''googleSearch'' @ [CHR 0x27] @ '' is available/enabled, use it to get broader context when the Knowledge Base is insufficient.'',
     '''',
     ''6. Response Formatting (Strict)'',
     ''   - Use clear spacing, bullet points, and numbered lists.'',
     ''   - Use emojis naturally.'',
     ''   - Use clean section headings.'',
     ''   - Tables: Only for summaries. No multiline text inside cells.'',
     ''   - Tone: Professional, Confident, Insightful.'',
     '''',
     [CHR 0xE2, CHR 0xB8, CHR 0xBB],
     '''',
     ''Output Style Examples'',
     '''',
     ''# '' @ [CHR 0xF0, CHR 0x9F, CHR 0x9A, CHR 0xA7] @ '' Title'',
     ''Short intro.'',
     '''',
     ''## '' @ [CHR 0xF0, CHR 0x9F, CHR 0x94, CHR 0x8D] @ '' Key Insights'',
     ''- Point 1'',
     ''- Point 2'',
     '''',
     ''## '' @ [CHR 0xF0, CHR 0x9F, CHR 0x93, CHR 0x8A] @ '' Summary'',
     ''| Metric | Value |'',
     ''| :--- | :--- |'',
     ''| A | B |'',
     '''',
     ''## '' @ [CHR 0xF0, CHR 0x9F, CHR 0x93, CHR 0x8C] @ '' Final Thoughts'',
     ''Wrap up.'',
     '''',
     [CHR 0xE2, CHR 0xB8, CHR 0xBB],
     '''',
     [CHR 0xF0, CHR 0x9F, CHR 0x9A, CHR 0xAB] @ '' Never Do This'',
     ''   - No solid text blocks'',
     ''   - No plain-text dumps'',
     ''   - No citations unless asked ('' @ [CHR 0x22] @ ''Show sources'' @ [CHR 0x22] @ '')'',
     '''']"

definition insightText :: "SharedInsight list \<Rightarrow> string" where
  "insightText sharedInsights =
     (if length sharedInsights > 0
      then [CHR 0x0A, CHR 0x0A] @ ''TEAM SHARED LEARNINGS (Prioritize these patterns):'' @ [CHR 0x0A] @
           join [CHR 0x0A] (map (\<lambda>i. bullet @ '' '' @ ins_content i) (slice (- 10) sharedInsights))
      else [])"

definition systemInstruction :: "SharedInsight list \<Rightarrow> string" where
  "systemInstruction sharedInsights =
     template_head @ insightText sharedInsights @ template_tail"

definition build_request ::
  "string \<Rightarrow> StoredFile list \<Rightarrow> Content list \<Rightarrow> ModelId \<Rightarrow> ChatAttachment list \<Rightarrow> bool \<Rightarrow>
   SharedInsight list \<Rightarrow> GenerateContentRequest" where
  "build_request prompt files history modelId attachments useWebSearch sharedInsights =
     (let knowledgeBaseParts = map (\<lambda>file. InlineData (sf_type file) (sf_content file)) files;
          attachmentParts = map (\<lambda>att. InlineData (att_mimeType att) (att_content att)) attachments;
          textPart = Text prompt;
          model = (if modelId = pro then ''gemini-3-pro-preview'' else ''gemini-2.5-flash'');
          contents = history @ [\<lparr>c_role = User, c_parts = knowledgeBaseParts @ attachmentParts @ [textPart]\<rparr>];
          tools = (if useWebSearch then [googleSearch] else [])
      in \<lparr>req_model = model,
          req_contents = contents,
          req_systemInstruction = systemInstruction sharedInsights,
          req_temperature = (if modelId = pro then 4 / 10 else 3 / 10),
          req_tools = (if length tools > 0 then Some tools else None)\<rparr>)"

subsection \<open>The citation marker\<close>

text \<open>
  The regular expression literal
  \<^verbatim>\<open>/\[Source:\s*([^,\]]+)(?:,\s*Context:\s*"([^"]+)")?\]/g\<close>
  is kept as a term of the fragment it is written in, and matched as JavaScript matches:
  leftmost, each quantifier greedy, backtracking into the most recent choice first.
\<close>

datatype charclass = Space | NoneOf string  \<comment> \<open>\<open>\s\<close>, \<open>[^...]\<close>\<close>

datatype regex =
    Lit string              \<comment> \<open>the characters themselves\<close>
  | Star charclass          \<comment> \<open>\<open>c*\<close>\<close>
  | Plus charclass          \<comment> \<open>\<open>c+\<close>\<close>
  | Group nat regex         \<comment> \<open>a capturing group, with its number\<close>
  | Opt regex               \<comment> \<open>\<open>(?:r)?\<close>\<close>
  | Seq regex regex

fun in_class :: "charclass \<Rightarrow> char \<Rightarrow> bool" where
  "in_class Space c = isSpace c"
| "in_class (NoneOf cs) c = (c \<notin> set cs)"

definition citation_regex :: regex where
  "citation_regex =
     Seq (Lit ''[Source:'')
    (Seq (Star Space)
    (Seq (Group 1 (Plus (NoneOf '',]'')))
    (Seq (Opt (Seq (Lit '','')
              (Seq (Star Space)
              (Seq (Lit ''Context:'')
              (Seq (Star Space)
              (Seq (Lit [CHR 0x22])
              (Seq (Group 2 (Plus (NoneOf [CHR 0x22])))
                   (Lit [CHR 0x22]))))))))
         (Lit '']''))))"

text \<open>
  The matcher takes the input left at the current position, the captures so far and the
  continuation that matches what follows; \<open>None\<close> is failure, on which the caller tries
  its next alternative.
\<close>

fun literal :: "string \<Rightarrow> string \<Rightarrow> string option" where
  "literal [] s = Some s"
| "literal (l # ls) [] = None"
| "literal (l # ls) (c # cs) = (if l = c then literal ls cs else None)"

fun star :: "(char \<Rightarrow> bool) \<Rightarrow> string \<Rightarrow> (string \<Rightarrow> 'r option) \<Rightarrow> 'r option" where
  "star p [] k = k []"
| "star p (c # cs) k =
     (if p c then (case star p cs k of Some r \<Rightarrow> Some r | None \<Rightarrow> k (c # cs))
      else k (c # cs))"

type_synonym captures = "nat \<Rightarrow> string option"

fun run :: "regex \<Rightarrow> string \<Rightarrow> captures \<Rightarrow> (string \<Rightarrow> captures \<Rightarrow> 'r option) \<Rightarrow> 'r option" where
  "run (Lit l) s cp k = (case literal l s of Some s' \<Rightarrow> k s' cp | None \<Rightarrow> None)"
| "run (Star c) s cp k = star (in_class c) s (\<lambda>s'. k s' cp)"
| "run (Plus c) s cp k =
     (case s of
        [] \<Rightarrow> None
      | x # xs \<Rightarrow> if in_class c x then star (in_class c) xs (\<lambda>s'. k s' cp) else None)"
| "run (Group i r) s cp k =
     run r s cp (\<lambda>s' cp'. k s' (cp'(i := Some (take (length s - length s') s))))"
| "run (Opt r) s cp k = (case run r s cp k of Some x \<Rightarrow> Some x | None \<Rightarrow> k s cp)"
| "run (Seq r1 r2) s cp k = run r1 s cp (\<lambda>s' cp'. run r2 s' cp' k)"

text \<open>
  A match at the head of the input: \<open>match[0]\<close> (the matched text), \<open>match[1]\<close> and
  \<open>match[2]\<close>.
\<close>

definition match_here :: "regex \<Rightarrow> string \<Rightarrow> (string \<times> string option \<times> string option) option" where
  "match_here r s =
     run r s (\<lambda>_. None) (\<lambda>s' cp. Some (take (length s - length s') s, cp 1, cp 2))"

text \<open>
  Both \<open>while ((match = regex.exec(text)) !== null)\<close> and \<open>text.replace(regex, '')\<close>
  walk the same matches: from \<open>lastIndex\<close>, the first position where the expression
  matches, after which \<open>lastIndex\<close> is the end of the match (a match of this expression
  has at least ten code units, so the walk moves on). The walk is kept as the text cut
  into its matches and the characters between them.
\<close>

datatype token = Plain char | Marker string "string option" "string option"

fun tokens :: "regex \<Rightarrow> string \<Rightarrow> token list" where
  "tokens r [] = []"
| "tokens r (c # cs) =
     (case match_here r (c # cs) of
        Some (m0, m1, m2) \<Rightarrow> Marker m0 m1 m2 # tokens r (drop (length m0 - 1) cs)
      | None \<Rightarrow> Plain c # tokens r cs)"

definition exec_all :: "regex \<Rightarrow> string \<Rightarrow> (string option \<times> string option) list" where
  "exec_all r text = concat (map (\<lambda>t. case t of Marker m0 m1 m2 \<Rightarrow> [(m1, m2)] | Plain c \<Rightarrow> []) (tokens r text))"

definition replace_all :: "regex \<Rightarrow> string \<Rightarrow> string" where
  "replace_all r text = concat (map (\<lambda>t. case t of Marker m0 m1 m2 \<Rightarrow> [] | Plain c \<Rightarrow> [c]) (tokens r text))"

subsection \<open>\<open>GeminiService.generateResponse\<close>\<close>

record Response =
  res_text :: string
  res_citations :: "Citation list"

text \<open>\<open>response.candidates?.[0]?.groundingMetadata?.groundingChunks\<close>\<close>

definition response_groundingChunks :: "GenerateContentResponse \<Rightarrow> GroundingChunk list option" where
  "response_groundingChunks response =
     (case resp_candidates response of
        None \<Rightarrow> None
      | Some [] \<Rightarrow> None
      | Some (c # _) \<Rightarrow>
          (case groundingMetadata c of
             None \<Rightarrow> None
           | Some gm \<Rightarrow> groundingChunks gm))"

text \<open>The \<open>forEach\<close> over the grounding chunks, when web search was used.\<close>

definition grounding_citations :: "bool \<Rightarrow> GenerateContentResponse \<Rightarrow> Citation list" where
  "grounding_citations useWebSearch response =
     (case (if useWebSearch then response_groundingChunks response else None) of
        None \<Rightarrow> []
      | Some chunks \<Rightarrow>
          concat (map (\<lambda>chunk.
            case chunk_web chunk of
              None \<Rightarrow> []
            | Some web \<Rightarrow>
                (case web_uri web of
                   None \<Rightarrow> []
                 | Some uri \<Rightarrow>
                     (if uri \<noteq> []
                      then [\<lparr>cit_source = or_else (web_title web) ''Web Source'', cit_context = uri\<rparr>]
                      else []))) chunks))"

text \<open>
  The body of the \<open>while\<close> loop: \<open>source\<close> and \<open>context\<close> of a match, and the \<open>key\<close>
  kept in \<open>seen\<close>. Group 1 takes part in every match of the expression, so \<open>match[1]\<close>
  is a string there.
\<close>

definition citation_of :: "string option \<times> string option \<Rightarrow> Citation" where
  "citation_of m =
     \<lparr>cit_source = (case fst m of Some g \<Rightarrow> trim g | None \<Rightarrow> []),
      cit_context = (case snd m of
                       Some g \<Rightarrow> if g \<noteq> [] then trim g else ''Reference found in document''
                     | None \<Rightarrow> ''Reference found in document'')\<rparr>"

definition citation_key :: "Citation \<Rightarrow> string" where
  "citation_key c = cit_source c @ ''-'' @ cit_context c"

text \<open>The loop over the matches, with the set \<open>seen\<close> and the array \<open>citations\<close> it updates.\<close>

fun citation_loop ::
  "(string option \<times> string option) list \<Rightarrow> string set \<Rightarrow> Citation list \<Rightarrow> Citation list" where
  "citation_loop [] seen citations = citations"
| "citation_loop (m # ms) seen citations =
     (let c = citation_of m;
          key = citation_key c
      in if key \<notin> seen
         then citation_loop ms (insert key seen) (citations @ [c])
         else citation_loop ms seen citations)"

text \<open>\<open>let text = response.text || "No response generated."\<close>\<close>

definition raw_text :: "GenerateContentResponse \<Rightarrow> string" where
  "raw_text response = or_else (resp_text response) ''No response generated.''"

text \<open>What the \<open>try\<close> block makes of a response.\<close>

definition process_response :: "bool \<Rightarrow> GenerateContentResponse \<Rightarrow> Response" where
  "process_response useWebSearch response =
     (let text = raw_text response;
          citations = citation_loop (exec_all citation_regex text) {}
                        (grounding_citations useWebSearch response);
          cleanedText = trim (replace_all citation_regex text)
      in \<lparr>res_text = (if length citations > 0 then cleanedText else text),
          res_citations = citations\<rparr>)"

definition generateResponse ::
  "backend \<Rightarrow> string \<Rightarrow> string \<Rightarrow> StoredFile list \<Rightarrow> Content list \<Rightarrow> ModelId \<Rightarrow>
   ChatAttachment list \<Rightarrow> bool \<Rightarrow> SharedInsight list \<Rightarrow> js_error + Response" where
  "generateResponse generateContent apiKey prompt files history modelId attachments useWebSearch
     sharedInsights =
     (case generateContent apiKey
             (build_request prompt files history modelId attachments useWebSearch sharedInsights) of
        Inl (Thrown m) \<Rightarrow> Inl (Error (or_else m ''Failed to generate response''))
      | Inr response \<Rightarrow> Inr (process_response useWebSearch response))"

section \<open>The application (App.tsx)\<close>

text \<open>
  The state of the \<open>App\<close> component (those of its \<open>useState\<close> cells that the properties
  below touch) and the database it works on. \<open>chatHistory\<close> is the \<open>Record<string, ChatMessage[]>\<close> keyed by
  knowledge-base id. Identifiers of \<open>crypto.randomUUID()\<close> and times of \<open>Date.now()\<close>
  are arguments of the handlers. A handler returns the error its promise rejects with, if
  any, and the state it leaves. The two \<open>useEffect\<close> hooks that write the last knowledge
  base and the chat history back to the store after a change of state are not handlers and
  are left out.
\<close>

record AppState =
  currentUser :: "User option"
  apiKey :: "string option"
  knowledgeBases :: "KnowledgeBase list"
  activeBaseId :: "string option"
  chatHistory :: "string \<rightharpoonup> ChatMessage list"
  sharedInsights :: "SharedInsight list"
  isProcessing :: bool
  database :: idb

subsection \<open>\<open>handleAddFiles\<close>\<close>


subsection \<open>\<open>handleSendMessage\<close>\<close>

text \<open>
  The handler runs in two parts, before and after \<open>await GeminiService.generateResponse\<close>.
  Between them the call is in flight; it is kept with what the closure holds.
\<close>

record Call =
  call_baseId :: string
  call_apiKey :: string
  call_prompt :: string
  call_files :: "StoredFile list"
  call_history :: "Content list"
  call_modelId :: ModelId
  call_attachments :: "ChatAttachment list"
  call_useWebSearch :: bool
  call_sharedInsights :: "SharedInsight list"

definition apiHistory_of :: "ChatMessage list \<Rightarrow> Content list" where
  "apiHistory_of updatedHistory =
     map (\<lambda>m. \<lparr>c_role = msg_role m,
               c_parts =
                 (case msg_attachments m of
                    None \<Rightarrow> []
                  | Some as \<Rightarrow> map (\<lambda>a. InlineData (att_mimeType a) (att_content a)) as) @
                 (if msg_text m \<noteq> [] then [Text (msg_text m)] else [])\<rparr>)
       (butlast updatedHistory)"

definition handleSendMessage_start ::
  "string \<Rightarrow> nat \<Rightarrow> AppState \<Rightarrow> string \<Rightarrow> ModelId \<Rightarrow> ChatAttachment list \<Rightarrow> bool \<Rightarrow>
   Call option \<times> AppState" where
  "handleSendMessage_start uuid now st text modelId attachments useWebSearch =
     (case (apiKey st, activeBaseId st) of
        (Some key, Some baseId) \<Rightarrow>
          (if key = [] \<or> baseId = [] then (None, st)
           else
             (case find (\<lambda>kb. kb_id kb = baseId) (knowledgeBases st) of
                None \<Rightarrow> (None, st)
              | Some currentBase \<Rightarrow>
                  (let userMsg = \<lparr>msg_id = uuid, msg_role = User, msg_text = text,
                                  msg_timestamp = now, msg_isError = None, msg_citations = None,
                                  msg_attachments = Some attachments, msg_feedback = None\<rparr>;
                       updatedHistory =
                         (case chatHistory st baseId of None \<Rightarrow> [] | Some h \<Rightarrow> h) @ [userMsg]
                   in (Some \<lparr>call_baseId = baseId, call_apiKey = key, call_prompt = text,
                             call_files = kb_files currentBase,
                             call_history = apiHistory_of updatedHistory,
                             call_modelId = modelId, call_attachments = attachments,
                             call_useWebSearch = useWebSearch,
                             call_sharedInsights = sharedInsights st\<rparr>,
                       st\<lparr>chatHistory := (chatHistory st)(baseId \<mapsto> updatedHistory),
                          isProcessing := True\<rparr>))))
      | _ \<Rightarrow> (None, st))"

text \<open>
  After the call: the model's message or, in \<open>catch\<close>, the error message is appended to
  \<open>prev[activeBaseId]\<close>, and \<open>finally\<close> clears \<open>isProcessing\<close>. Spreading
  \<open>prev[activeBaseId]\<close> when the entry is gone is a \<open>TypeError\<close> of the state updater.
\<close>

definition handleSendMessage_finish ::
  "string \<Rightarrow> nat \<Rightarrow> AppState \<Rightarrow> Call \<Rightarrow> js_error + Response \<Rightarrow> js_error option \<times> AppState" where
  "handleSendMessage_finish uuid now st call outcome =
     (let reply =
            (case outcome of
               Inr r \<Rightarrow>
                 \<lparr>msg_id = uuid, msg_role = Model, msg_text = res_text r, msg_timestamp = now,
                  msg_isError = None, msg_citations = Some (res_citations r),
                  msg_attachments = None, msg_feedback = None\<rparr>
             | Inl error \<Rightarrow>
                 \<lparr>msg_id = uuid, msg_role = Model, msg_text = ''Error: '' @ message error,
                  msg_timestamp = now, msg_isError = Some True, msg_citations = None,
                  msg_attachments = None, msg_feedback = None\<rparr>)
      in case chatHistory st (call_baseId call) of
           None \<Rightarrow>
             (Some (TypeError ''prev[activeBaseId] is not iterable''), st\<lparr>isProcessing := False\<rparr>)
         | Some h \<Rightarrow>
             (None, st\<lparr>chatHistory := (chatHistory st)(call_baseId call \<mapsto> h @ [reply]),
                        isProcessing := False\<rparr>))"



subsection \<open>\<open>handleFeedback\<close>\<close>

text \<open>
  The two values the handler builds: the history with the feedback set on the message, and
  the insight made of the question and the answer.
\<close>

definition tag_feedback :: "string \<Rightarrow> feedback \<Rightarrow> ChatMessage list \<Rightarrow> ChatMessage list" where
  "tag_feedback messageId type history =
     map (\<lambda>msg. if msg_id msg = messageId then msg\<lparr>msg_feedback := Some type\<rparr> else msg) history"

definition new_insight :: "string \<Rightarrow> nat \<Rightarrow> string \<Rightarrow> string \<Rightarrow> string \<Rightarrow> SharedInsight" where
  "new_insight uuid now baseId question answer =
     \<lparr>ins_id = uuid,
      ins_content = ''Q: '' @ question @ [CHR 0x0A] @ ''A: '' @ take 200 answer @ ''...'',
      ins_timestamp = now,
      ins_sourceBaseId = Some baseId\<rparr>"

definition handleFeedback ::
  "string \<Rightarrow> nat \<Rightarrow> AppState \<Rightarrow> string \<Rightarrow> feedback \<Rightarrow> js_error option \<times> AppState" where
  "handleFeedback uuid now st messageId type =
     (case activeBaseId st of
        None \<Rightarrow> (None, st)
      | Some baseId \<Rightarrow>
          (if baseId = [] then (None, st)
           else
             (let st1 = st\<lparr>chatHistory := (chatHistory st)(baseId \<mapsto>
                          tag_feedback messageId type
                            (case chatHistory st baseId of None \<Rightarrow> [] | Some h \<Rightarrow> h))\<rparr>
              in if type = thumbs_up then
                   (case chatHistory st baseId of
                      None \<Rightarrow>
                        (Some (TypeError ''Cannot read properties of undefined (reading findIndex)''), st1)
                    | Some history \<Rightarrow>
                        (let msgIndex = findIndex (\<lambda>m. msg_id m = messageId) history
                         in if msgIndex > 0 then
                              (let question = msg_text (history ! nat (msgIndex - 1));
                                   answer = msg_text (history ! nat msgIndex);
                                   insight = new_insight uuid now baseId question answer
                               in case addSharedInsight (database st1) insight of
                                    Inl e \<Rightarrow> (Some e, st1)
                                  | Inr db' \<Rightarrow>
                                      (case getSharedInsights db' of
                                         Inl e \<Rightarrow> (Some e, st1\<lparr>database := db'\<rparr>)
                                       | Inr insights \<Rightarrow>
                                           (None, st1\<lparr>database := db', sharedInsights := insights\<rparr>)))
                            else (None, st1)))
                 else (None, st1))))"

subsection \<open>Other handlers of the session\<close>

definition handleLogout :: "AppState \<Rightarrow> AppState" where
  "handleLogout st = st\<lparr>currentUser := None, chatHistory := Map.empty, activeBaseId := None\<rparr>"

definition onSelectBase :: "AppState \<Rightarrow> string \<Rightarrow> AppState" where
  "onSelectBase st baseId = st\<lparr>activeBaseId := Some baseId\<rparr>"

section \<open>The chat area (components/ChatArea.tsx)\<close>




record ChatArea =
  input :: string
  selectedModel :: ModelId
  useWebSearch :: bool
  pendingAttachments :: "ChatAttachment list"



text \<open>
  \<open>handleSubmit\<close>, up to the \<open>await\<close> inside \<open>onSendMessage\<close>. The \<open>isProcessing\<close> it
  reads is the prop, which is the \<open>App\<close> state's cell as last rendered.
\<close>

definition handleSubmit ::
  "string \<Rightarrow> nat \<Rightarrow> ChatArea \<times> AppState \<Rightarrow> Call option \<times> ChatArea \<times> AppState" where
  "handleSubmit uuid now cfg =
     (let (ca, st) = cfg
      in if (trim (input ca) = [] \<and> length (pendingAttachments ca) = 0) \<or> isProcessing st
         then (None, ca, st)
         else
           (let text = input ca;
                attachments = pendingAttachments ca;
                ca' = ca\<lparr>input := [], pendingAttachments := []\<rparr>;
                (call, st') = handleSendMessage_start uuid now st text (selectedModel ca)
                                attachments (useWebSearch ca)
            in (call, ca', st')))"

section \<open>The knowledge-base manager (components/DatabaseManager.tsx)\<close>

datatype uploadStatus = idle | uploading | success

record DatabaseManager =
  uploadStatus :: uploadStatus
  error :: "string option"





section \<open>The session as a transition system\<close>

text \<open>
  A configuration is the chat area, the application state and the calls of
  \<open>generateResponse\<close> that have been issued and have not returned. Each step is one event
  of the page, run to completion: the user edits the form, submits it, gives feedback,
  selects a knowledge base or logs out, or the backend call in flight returns.
\<close>

record config =
  area :: ChatArea
  app :: AppState
  inflight :: "Call list"

inductive step :: "config \<Rightarrow> config \<Rightarrow> bool" where
  edit: "step c (c\<lparr>area := ca\<rparr>)"
| submit:
    "handleSubmit uuid now (area c, app c) = (call, ca', st') \<Longrightarrow>
     step c (c\<lparr>area := ca', app := st',
               inflight := inflight c @ (case call of None \<Rightarrow> [] | Some k \<Rightarrow> [k])\<rparr>)"
| returns:
    "inflight c = k # ks \<Longrightarrow> handleSendMessage_finish uuid now (app c) k outcome = (err, st') \<Longrightarrow>
     step c (c\<lparr>app := st', inflight := ks\<rparr>)"
| feedback:
    "handleFeedback uuid now (app c) messageId type = (err, st') \<Longrightarrow> step c (c\<lparr>app := st'\<rparr>)"
| select: "step c (c\<lparr>app := onSelectBase (app c) baseId\<rparr>)"
| logout: "step c (c\<lparr>app := handleLogout (app c)\<rparr>)"

inductive reachable :: "config \<Rightarrow> bool" where
  initial: "\<not> isProcessing (app c) \<Longrightarrow> inflight c = [] \<Longrightarrow> reachable c"
| later: "reachable c \<Longrightarrow> step c c' \<Longrightarrow> reachable c'"

section \<open>Notions used in the properties\<close>


text \<open>
  Again the words of the specification: deduplication in first-seen order. An element is
  kept where it first occurs, unless it is in \<open>S\<close> already.
\<close>

fun first_seen :: "'a set \<Rightarrow> 'a list \<Rightarrow> 'a list" where
  "first_seen S [] = []"
| "first_seen S (x # xs) = (if x \<in> S then first_seen S xs else x # first_seen (insert x S) xs)"



text \<open>
  At most one call in flight, and \<open>isProcessing\<close> set exactly while there is one.
\<close>

definition one_in_flight :: "config \<Rightarrow> bool" where
  "one_in_flight c \<longleftrightarrow> length (inflight c) \<le> 1 \<and> (isProcessing (app c) \<longleftrightarrow> inflight c \<noteq> [])"

section \<open>Example data\<close>

text \<open>The values at which the properties below are evaluated.\<close>

definition alice :: User where
  "alice = \<lparr>user_id = ''u-1'', username = ''alice'', user_createdAt = 1000\<rparr>"

definition healthy_db :: idb where
  "healthy_db =
     \<lparr>open_error = None, read_error = None, write_error = None,
      users = [(''alice'', alice)], knowledge_bases = [], shared_insights = []\<rparr>"

definition failing_db :: idb where
  "failing_db =
     healthy_db\<lparr>read_error := Some (DOMException ''UnknownError''),
                write_error := Some (DOMException ''QuotaExceededError'')\<rparr>"

definition question1 :: ChatMessage where
  "question1 = \<lparr>msg_id = ''m-1'', msg_role = User, msg_text = ''What is the capital?'',
                 msg_timestamp = 10, msg_isError = None, msg_citations = None,
                 msg_attachments = Some [], msg_feedback = None\<rparr>"

definition answer1 :: ChatMessage where
  "answer1 = \<lparr>msg_id = ''m-2'', msg_role = Model, msg_text = replicate 250 (CHR ''x''),
               msg_timestamp = 11, msg_isError = None, msg_citations = Some [],
               msg_attachments = None, msg_feedback = None\<rparr>"

definition answer2 :: ChatMessage where
  "answer2 = \<lparr>msg_id = ''m-3'', msg_role = Model, msg_text = ''Error: boom'',
               msg_timestamp = 12, msg_isError = Some True, msg_citations = None,
               msg_attachments = None, msg_feedback = None\<rparr>"

definition kb1 :: KnowledgeBase where
  "kb1 = \<lparr>kb_id = ''kb-1'', kb_name = ''Team'', kb_createdAt = 1, kb_files = []\<rparr>"

definition chat_state :: AppState where
  "chat_state =
     \<lparr>currentUser = Some alice, apiKey = Some ''key'', knowledgeBases = [kb1],
      activeBaseId = Some ''kb-1'',
      chatHistory = [''kb-1'' \<mapsto> [question1, answer1, answer2]],
      sharedInsights = [], isProcessing = False, database = healthy_db\<rparr>"



definition grounded_response :: "string option \<Rightarrow> GenerateContentResponse" where
  "grounded_response t =
     \<lparr>resp_text = t,
      resp_candidates = Some [\<lparr>groundingMetadata = Some \<lparr>groundingChunks = Some
        [\<lparr>chunk_web = Some \<lparr>web_uri = Some ''https://example.org'', web_title = None\<rparr>\<rparr>]\<rparr>\<rparr>]\<rparr>"


definition answering :: "GenerateContentResponse \<Rightarrow> backend" where
  "answering response = (\<lambda>key request. Inr response)"


definition hello :: ChatMessage where
  "hello = \<lparr>msg_id = ''m-4'', msg_role = User, msg_text = ''hello'', msg_timestamp = 30,
             msg_isError = None, msg_citations = None, msg_attachments = Some [],
             msg_feedback = None\<rparr>"


definition idle_config :: config where
  "idle_config =
     \<lparr>area = \<lparr>input = ''hello'', selectedModel = fast, useWebSearch = False, pendingAttachments = []\<rparr>,
      app = chat_state, inflight = []\<rparr>"

definition busy_config :: config where
  "busy_config =
     (case handleSubmit ''m-4'' 30 (area idle_config, app idle_config) of
        (call, ca', st') \<Rightarrow>
          idle_config\<lparr>area := ca', app := st',
                       inflight := inflight idle_config @ (case call of None \<Rightarrow> [] | Some k \<Rightarrow> [k])\<rparr>)"






section \<open>Properties of the store\<close>

lemma map_of_store_put: "map_of (store_put k v r) = (map_of r)(k \<mapsto> v)"
  by (induction r) (auto simp: fun_upd_twist)

lemma length_store_put:
  "map_of r k = None \<Longrightarrow> length (store_put k v r) = Suc (length r)"
  by (induction r) (auto split: if_splits)

text \<open>
  C8. When the database opens, a read request that fails makes \<open>get\<close> resolve with
  \<open>null\<close> and \<open>getAll\<close> with the empty array: the promise is not rejected. A write
  request that fails makes \<open>put\<close> reject, and with the request's own error whenever the
  request was issued.
\<close>

theorem read_failure_is_absent_write_failure_propagates:
  assumes "open_error db = None"
  shows "(read_error db = Some e \<longrightarrow> get rs db key = Inr None \<and> getAll rs db = Inr [])
       \<and> (write_error db = Some e \<longrightarrow>
            (\<exists>e'. put ws db v k = Inl e') \<and>
            (\<forall>key'. request_key ws v k = Inr key' \<longrightarrow> put ws db v k = Inl e))"
  using assms
  by (auto simp: get_def getAll_def put_def getDB_def split: sum.splits option.splits)

theorem read_failure_is_absent_write_failure_propagates_witness:
  "open_error failing_db = None
   \<and> read_error failing_db = Some (DOMException ''UnknownError'')
   \<and> map_of (users failing_db) ''alice'' = Some alice
   \<and> get STORES_USERS failing_db ''alice'' = Inr None
   \<and> getAll STORES_USERS failing_db = Inr []
   \<and> write_error failing_db = Some (DOMException ''QuotaExceededError'')
   \<and> put STORES_USERS failing_db alice None = Inl (DOMException ''QuotaExceededError'')"
proof -
  have o: "open_error failing_db = None"
    by (simp add: failing_db_def healthy_db_def)
  have k: "request_key STORES_USERS alice None = Inr ''alice''"
    by (simp add: request_key_def STORES_USERS_def alice_def)
  from read_failure_is_absent_write_failure_propagates
         [OF o, of "DOMException ''UnknownError''" STORES_USERS "''alice''"]
       read_failure_is_absent_write_failure_propagates
         [OF o, of "DOMException ''QuotaExceededError''" STORES_USERS "''alice''" STORES_USERS alice None]
       k
  show ?thesis
    by (simp add: failing_db_def healthy_db_def)
qed

text \<open>
  The hypothesis is needed: when the database does not open, all three reject with the
  error of \<open>getDB\<close>.
\<close>

lemma open_failure_rejects:
  "open_error db = Some e \<Longrightarrow>
   get rs db key = Inl e \<and> getAll rs db = Inl e \<and> put ws db v k = Inl e"
  by (simp add: get_def getAll_def put_def getDB_def)



text \<open>
  The hypothesis on the read request is needed: a read that fails is taken for an absent
  user, so that \<open>registerUser\<close> then replaces the stored user.
\<close>

lemma registerUser_after_failed_read:
  "registerUser ''u-2'' 2000 (healthy_db\<lparr>read_error := Some (DOMException ''UnknownError'')\<rparr>) ''alice''
   = (Inr \<lparr>user_id = ''u-2'', username = ''alice'', user_createdAt = 2000\<rparr>,
      healthy_db\<lparr>read_error := Some (DOMException ''UnknownError''),
                 users := [(''alice'', \<lparr>user_id = ''u-2'', username = ''alice'', user_createdAt = 2000\<rparr>)]\<rparr>)"
  by (simp add: registerUser_def get_def put_def getDB_def request_key_def STORES_USERS_def
        healthy_db_def Let_def)

section \<open>Properties of the feedback handler\<close>

lemma findIndex_first:
  "i < length xs \<Longrightarrow> P (xs ! i) \<Longrightarrow> \<forall>j<i. \<not> P (xs ! j) \<Longrightarrow> findIndex P xs = int i"
proof (induction xs arbitrary: i)
  case Nil
  then show ?case by simp
next
  case (Cons x xs)
  show ?case
  proof (cases i)
    case 0
    with Cons.prems show ?thesis by simp
  next
    case (Suc n)
    with Cons.prems have "\<not> P x" by auto
    moreover from Suc Cons.prems have "findIndex P xs = int n"
      by (intro Cons.IH) auto
    ultimately show ?thesis using Suc by (simp add: Let_def)
  qed
qed

lemma findIndex_distinct:
  assumes "i < length xs" and "distinct (map f xs)"
  shows "findIndex (\<lambda>x. f x = f (xs ! i)) xs = int i"
proof (rule findIndex_first)
  show "\<forall>j<i. f (xs ! j) \<noteq> f (xs ! i)"
    using assms by (auto simp: distinct_conv_nth)
qed (use assms in auto)

lemma handleFeedback_later:
  assumes "activeBaseId st = Some baseId" and "baseId \<noteq> []"
    and "chatHistory st baseId = Some history"
    and "findIndex (\<lambda>m. msg_id m = messageId) history = int (Suc i)"
    and "open_error (database st) = None" and "read_error (database st) = None"
    and "write_error (database st) = None"
  shows "handleFeedback uuid now st messageId thumbs_up =
     (None,
      st\<lparr>chatHistory := (chatHistory st)(baseId \<mapsto> tag_feedback messageId thumbs_up history),
         database := (database st)\<lparr>shared_insights :=
           store_put uuid
             (new_insight uuid now baseId (msg_text (history ! i)) (msg_text (history ! Suc i)))
             (shared_insights (database st))\<rparr>,
         sharedInsights := map snd (store_put uuid
             (new_insight uuid now baseId (msg_text (history ! i)) (msg_text (history ! Suc i)))
             (shared_insights (database st)))\<rparr>)"
  using assms
  by (simp add: handleFeedback_def Let_def addSharedInsight_def getSharedInsights_def put_def
        getAll_def getDB_def request_key_def STORES_INSIGHTS_def nat_add_distrib new_insight_def)

lemma handleFeedback_thumbs_down:
  "fst (handleFeedback uuid now st messageId thumbs_down) = None
   \<and> database (snd (handleFeedback uuid now st messageId thumbs_down)) = database st
   \<and> sharedInsights (snd (handleFeedback uuid now st messageId thumbs_down)) = sharedInsights st"
  by (simp add: handleFeedback_def Let_def split: option.splits)

lemma handleFeedback_first:
  assumes "activeBaseId st = Some baseId" and "baseId \<noteq> []"
    and "chatHistory st baseId = Some (m # rest)" and "msg_id m = messageId"
  shows "handleFeedback uuid now st messageId thumbs_up =
           (None, st\<lparr>chatHistory := (chatHistory st)(baseId \<mapsto> tag_feedback messageId thumbs_up (m # rest))\<rparr>)"
  using assms by (simp add: handleFeedback_def Let_def)


text \<open>
  C1. Let the active conversation hold a message \<open>M\<close> right after a message \<open>P\<close>
  (the user's question and the model's answer, though the handler does not look at the
  roles), with message ids distinct, on a database whose requests succeed and for a fresh
  identifier. A thumbs-up on \<open>M\<close> then adds exactly one record to the insight store, whose
  content is "Q: ", the text of \<open>P\<close>, a line feed, "A: ", the first 200 characters of the
  text of \<open>M\<close>, and "...". A thumbs-down, on any message in any state, leaves the
  insight store and the insights of the application as they were.
\<close>

theorem thumbs_up_creates_one_insight:
  assumes "activeBaseId st = Some baseId" and "baseId \<noteq> []"
    and "chatHistory st baseId = Some history"
    and "Suc i < length history" and "distinct (map msg_id history)"
    and "open_error (database st) = None" and "read_error (database st) = None"
    and "write_error (database st) = None"
    and "map_of (shared_insights (database st)) uuid = None"
    and "insight = new_insight uuid now baseId (msg_text (history ! i)) (msg_text (history ! Suc i))"
  shows "ins_content insight = ''Q: '' @ msg_text (history ! i) @ [CHR 0x0A] @ ''A: '' @
                                take 200 (msg_text (history ! Suc i)) @ ''...''
       \<and> (\<exists>st'. handleFeedback uuid now st (msg_id (history ! Suc i)) thumbs_up = (None, st')
            \<and> shared_insights (database st') = store_put uuid insight (shared_insights (database st))
            \<and> map_of (shared_insights (database st')) =
                (map_of (shared_insights (database st)))(uuid \<mapsto> insight)
            \<and> length (shared_insights (database st')) = Suc (length (shared_insights (database st)))
            \<and> sharedInsights st' = map snd (shared_insights (database st')))
       \<and> fst (handleFeedback uuid' now' st2 messageId thumbs_down) = None
       \<and> database (snd (handleFeedback uuid' now' st2 messageId thumbs_down)) = database st2
       \<and> sharedInsights (snd (handleFeedback uuid' now' st2 messageId thumbs_down)) = sharedInsights st2"
proof -
  have "findIndex (\<lambda>m. msg_id m = msg_id (history ! Suc i)) history = int (Suc i)"
    using assms(4,5) by (rule findIndex_distinct)
  from handleFeedback_later [OF assms(1-3) this assms(6-8), of uuid now] assms(9,10)
  show ?thesis
    by (simp add: handleFeedback_thumbs_down map_of_store_put length_store_put new_insight_def)
qed

theorem thumbs_up_creates_one_insight_witness:
  "activeBaseId chat_state = Some ''kb-1''
   \<and> chatHistory chat_state ''kb-1'' = Some [question1, answer1, answer2]
   \<and> msg_role question1 = User \<and> msg_role answer1 = Model
   \<and> fst (handleFeedback ''i-1'' 20 chat_state ''m-2'' thumbs_up) = None
   \<and> shared_insights (database (snd (handleFeedback ''i-1'' 20 chat_state ''m-2'' thumbs_up)))
       = [(''i-1'', \<lparr>ins_id = ''i-1'',
                     ins_content = ''Q: What is the capital?'' @ [CHR 0x0A] @ ''A: '' @
                                   replicate 200 (CHR ''x'') @ ''...'',
                     ins_timestamp = 20, ins_sourceBaseId = Some ''kb-1''\<rparr>)]
   \<and> shared_insights (database (snd (handleFeedback ''i-1'' 20 chat_state ''m-2'' thumbs_down))) = []"
proof -
  have d: "distinct (map msg_id [question1, answer1, answer2])"
    by (simp add: question1_def answer1_def answer2_def)
  have h: "chatHistory chat_state ''kb-1'' = Some [question1, answer1, answer2]"
    by (simp add: chat_state_def)
  have a: "activeBaseId chat_state = Some ''kb-1''" "''kb-1'' \<noteq> []"
    by (simp_all add: chat_state_def)
  have db: "open_error (database chat_state) = None" "read_error (database chat_state) = None"
    "write_error (database chat_state) = None"
    "map_of (shared_insights (database chat_state)) ''i-1'' = None"
    by (simp_all add: chat_state_def healthy_db_def)
  have i: "Suc 0 < length [question1, answer1, answer2]" by simp
  have m: "msg_id ([question1, answer1, answer2] ! Suc 0) = ''m-2''"
    by (simp add: answer1_def)
  from thumbs_up_creates_one_insight [OF a h i d db refl, of 20 "''i-1''" 20 chat_state "''m-2''"]
  have "\<exists>st'. handleFeedback ''i-1'' 20 chat_state ''m-2'' thumbs_up = (None, st')
          \<and> shared_insights (database st') =
              store_put ''i-1'' (new_insight ''i-1'' 20 ''kb-1'' (msg_text question1) (msg_text answer1))
                (shared_insights (database chat_state))"
    and "database (snd (handleFeedback ''i-1'' 20 chat_state ''m-2'' thumbs_down)) = database chat_state"
    unfolding m by auto
  then show ?thesis using h a
    by (auto simp: chat_state_def healthy_db_def question1_def answer1_def new_insight_def)
qed


text \<open>
  C2, as stated, fails: in the conversation question, answer, error answer, the third
  message comes after a model message, and a thumbs-up on it stores an insight whose
  question is the text of that model message.
\<close>

theorem thumbs_up_after_model_message_counterexample:
  "activeBaseId chat_state = Some ''kb-1''
   \<and> chatHistory chat_state ''kb-1'' = Some [question1, answer1, answer2]
   \<and> msg_role answer1 = Model \<and> msg_id answer2 = ''m-3''
   \<and> shared_insights (database chat_state) = []
   \<and> shared_insights (database (snd (handleFeedback ''i-1'' 20 chat_state ''m-3'' thumbs_up)))
       = [(''i-1'', \<lparr>ins_id = ''i-1'',
                     ins_content = ''Q: '' @ replicate 250 (CHR ''x'') @ [CHR 0x0A] @ ''A: Error: boom...'',
                     ins_timestamp = 20, ins_sourceBaseId = Some ''kb-1''\<rparr>)]"
  by (simp add: handleFeedback_def chat_state_def healthy_db_def Let_def question1_def answer1_def
        answer2_def addSharedInsight_def getSharedInsights_def put_def getAll_def getDB_def
        request_key_def STORES_INSIGHTS_def new_insight_def)

text \<open>
  C2, amended. A thumbs-up on the first message of the active conversation creates no
  insight: the handler only sets the feedback on the message, and the database and the
  insights of the application stay as they were. The role of the entry before a message
  is not looked at: a thumbs-up on a later message creates an insight also when the entry
  before it is a model message.
\<close>

theorem thumbs_up_on_first_message:
  assumes "activeBaseId st = Some baseId" and "baseId \<noteq> []"
    and "chatHistory st baseId = Some (m # rest)"
  shows "handleFeedback uuid now st (msg_id m) thumbs_up =
           (None, st\<lparr>chatHistory :=
                        (chatHistory st)(baseId \<mapsto> tag_feedback (msg_id m) thumbs_up (m # rest))\<rparr>)
       \<and> database (snd (handleFeedback uuid now st (msg_id m) thumbs_up)) = database st
       \<and> sharedInsights (snd (handleFeedback uuid now st (msg_id m) thumbs_up)) = sharedInsights st
       \<and> (Suc i < length (m # rest) \<and> distinct (map msg_id (m # rest))
            \<and> msg_role ((m # rest) ! i) = Model
            \<and> open_error (database st) = None \<and> read_error (database st) = None
            \<and> write_error (database st) = None
            \<longrightarrow> (\<exists>st'. handleFeedback uuid now st (msg_id ((m # rest) ! Suc i)) thumbs_up = (None, st')
                  \<and> shared_insights (database st') =
                      store_put uuid
                        (new_insight uuid now baseId (msg_text ((m # rest) ! i))
                           (msg_text ((m # rest) ! Suc i)))
                        (shared_insights (database st))))"
proof -
  have first: "handleFeedback uuid now st (msg_id m) thumbs_up =
           (None, st\<lparr>chatHistory :=
                        (chatHistory st)(baseId \<mapsto> tag_feedback (msg_id m) thumbs_up (m # rest))\<rparr>)"
    using assms by (rule handleFeedback_first) simp
  have later: "\<exists>st'. handleFeedback uuid now st (msg_id ((m # rest) ! Suc i)) thumbs_up = (None, st')
                  \<and> shared_insights (database st') =
                      store_put uuid
                        (new_insight uuid now baseId (msg_text ((m # rest) ! i))
                           (msg_text ((m # rest) ! Suc i)))
                        (shared_insights (database st))"
    if "Suc i < length (m # rest)" and "distinct (map msg_id (m # rest))"
      and "open_error (database st) = None" and "read_error (database st) = None"
      and "write_error (database st) = None"
  proof -
    have "findIndex (\<lambda>x. msg_id x = msg_id ((m # rest) ! Suc i)) (m # rest) = int (Suc i)"
      using that(1,2) by (rule findIndex_distinct)
    from handleFeedback_later [OF assms this that(3-5), of uuid now]
    show ?thesis by simp
  qed
  from first later show ?thesis by simp
qed

theorem thumbs_up_on_first_message_witness:
  "activeBaseId chat_state = Some ''kb-1''
   \<and> chatHistory chat_state ''kb-1'' = Some [question1, answer1, answer2]
   \<and> handleFeedback ''i-1'' 20 chat_state ''m-1'' thumbs_up =
       (None, chat_state\<lparr>chatHistory :=
          [''kb-1'' \<mapsto> [question1\<lparr>msg_feedback := Some thumbs_up\<rparr>, answer1, answer2]]\<rparr>)
   \<and> msg_role answer1 = Model
   \<and> map fst (shared_insights (database (snd (handleFeedback ''i-1'' 20 chat_state ''m-3'' thumbs_up))))
       = [''i-1'']"
proof -
  have a: "activeBaseId chat_state = Some ''kb-1''" "''kb-1'' \<noteq> []"
    and h: "chatHistory chat_state ''kb-1'' = Some [question1, answer1, answer2]"
    by (simp_all add: chat_state_def)
  have pre: "Suc 1 < length [question1, answer1, answer2]
       \<and> distinct (map msg_id [question1, answer1, answer2])
       \<and> msg_role ([question1, answer1, answer2] ! 1) = Model
       \<and> open_error (database chat_state) = None \<and> read_error (database chat_state) = None
       \<and> write_error (database chat_state) = None"
    by (simp add: question1_def answer1_def answer2_def chat_state_def healthy_db_def)
  have ids: "msg_id question1 = ''m-1''" "msg_id ([question1, answer1, answer2] ! Suc 1) = ''m-3''"
    by (simp_all add: question1_def answer2_def)
  have t: "tag_feedback ''m-1'' thumbs_up [question1, answer1, answer2]
           = [question1\<lparr>msg_feedback := Some thumbs_up\<rparr>, answer1, answer2]"
    by (simp add: tag_feedback_def question1_def answer1_def answer2_def)
  have u: "(chatHistory chat_state)(''kb-1'' \<mapsto> x) = [''kb-1'' \<mapsto> x]" for x
    by (simp add: chat_state_def)
  from thumbs_up_on_first_message [OF a h, of "''i-1''" 20 1] pre
  have "handleFeedback ''i-1'' 20 chat_state ''m-1'' thumbs_up =
       (None, chat_state\<lparr>chatHistory :=
          [''kb-1'' \<mapsto> [question1\<lparr>msg_feedback := Some thumbs_up\<rparr>, answer1, answer2]]\<rparr>)"
    and "\<exists>st'. handleFeedback ''i-1'' 20 chat_state ''m-3'' thumbs_up = (None, st')
          \<and> shared_insights (database st') =
              store_put ''i-1'' (new_insight ''i-1'' 20 ''kb-1'' (msg_text answer1) (msg_text answer2))
                (shared_insights (database chat_state))"
    unfolding ids t u by auto
  then show ?thesis using a h
    by (auto simp: chat_state_def healthy_db_def answer1_def)
qed

section \<open>Properties of the system instruction\<close>





text \<open>
  The list is the one the caller passes. The application passes the array it got from
  \<open>getSharedInsights\<close>, which lists the store by identifier: an insight created later
  comes earlier in it when its identifier is the smaller one.
\<close>

lemma insights_are_listed_by_id:
  "map (\<lambda>i. (ins_id i, ins_timestamp i))
     (sharedInsights
        (snd (handleFeedback ''i-0'' 21
                (snd (handleFeedback ''i-1'' 20 chat_state ''m-2'' thumbs_up)) ''m-2'' thumbs_up)))
   = [(''i-0'', 21), (''i-1'', 20)]"
  by (simp add: handleFeedback_def chat_state_def healthy_db_def Let_def question1_def answer1_def
        answer2_def addSharedInsight_def getSharedInsights_def put_def getAll_def getDB_def
        request_key_def STORES_INSIGHTS_def new_insight_def tag_feedback_def)

section \<open>Properties of the response\<close>

lemma placeholder_tokens:
  "tokens citation_regex ''No response generated.'' = map Plain ''No response generated.''"
  by (simp add: match_here_def citation_regex_def)

lemma placeholder_clean:
  "exec_all citation_regex ''No response generated.'' = []"
  "trim (replace_all citation_regex ''No response generated.'') = ''No response generated.''"
  unfolding exec_all_def replace_all_def placeholder_tokens
  by (simp_all add: trim_def isSpace_def)



lemma raw_text_nonempty: "raw_text response \<noteq> []"
  by (cases "resp_text response") (simp_all add: raw_text_def)

text \<open>
  C10. When the backend's call succeeds with a response whose text is missing or empty,
  \<open>generateResponse\<close> returns the text "No response generated.", with or without
  grounding citations. The raw text, the value of \<open>text\<close> before the citations are
  stripped, is never the empty string.
\<close>

theorem empty_response_text_placeholder:
  assumes "resp_text response = None \<or> resp_text response = Some []"
    and "generateContent key
           (build_request prompt files history modelId attachments web insights) = Inr response"
  shows "generateResponse generateContent key prompt files history modelId attachments web insights
           = Inr \<lparr>res_text = ''No response generated.'',
                  res_citations = grounding_citations web response\<rparr>
       \<and> raw_text response = ''No response generated.''
       \<and> raw_text any_response \<noteq> []"
proof -
  from assms(1) have r: "raw_text response = ''No response generated.''"
    by (auto simp: raw_text_def)
  have "process_response web response =
          \<lparr>res_text = ''No response generated.'', res_citations = grounding_citations web response\<rparr>"
    unfolding process_response_def r Let_def placeholder_clean by simp
  with assms(2) r show ?thesis
    by (simp add: generateResponse_def raw_text_nonempty)
qed

theorem empty_response_text_placeholder_witness:
  "resp_text (grounded_response None) = None
   \<and> generateResponse (answering (grounded_response None)) ''key'' ''hello'' [] [] fast [] True []
       = Inr \<lparr>res_text = ''No response generated.'',
              res_citations = [\<lparr>cit_source = ''Web Source'', cit_context = ''https://example.org''\<rparr>]\<rparr>
   \<and> generateResponse (answering (grounded_response (Some ''''))) ''key'' ''hello'' [] [] fast [] False []
       = Inr \<lparr>res_text = ''No response generated.'', res_citations = []\<rparr>"
proof -
  have g: "grounding_citations True (grounded_response None)
             = [\<lparr>cit_source = ''Web Source'', cit_context = ''https://example.org''\<rparr>]"
    "grounding_citations False (grounded_response (Some '''')) = []"
    by (simp_all add: grounding_citations_def response_groundingChunks_def grounded_response_def)
  have t: "resp_text (grounded_response None) = None \<or> resp_text (grounded_response None) = Some []"
    "resp_text (grounded_response (Some [])) = None \<or> resp_text (grounded_response (Some [])) = Some []"
    by (simp_all add: grounded_response_def)
  have b: "answering r k q = Inr r" for r k q
    by (simp add: answering_def)
  from empty_response_text_placeholder
         [where generateContent = "answering (grounded_response None)" and key = "''key''"
            and prompt = "''hello''" and files = "[]" and history = "[]" and modelId = fast
            and attachments = "[]" and web = True and insights = "[]", OF t(1) b]
       empty_response_text_placeholder
         [where generateContent = "answering (grounded_response (Some []))" and key = "''key''"
            and prompt = "''hello''" and files = "[]" and history = "[]" and modelId = fast
            and attachments = "[]" and web = False and insights = "[]", OF t(2) b]
  show ?thesis
    unfolding g by (simp add: grounded_response_def)
qed

text \<open>
  The text returned after stripping can be empty, when the raw text is nothing but
  markers.
\<close>

lemma returned_text_may_be_empty:
  "process_response False \<lparr>resp_text = Some ''[Source: a]'', resp_candidates = None\<rparr>
     = \<lparr>res_text = [],
        res_citations = [\<lparr>cit_source = ''a'', cit_context = ''Reference found in document''\<rparr>]\<rparr>"
  by (simp add: process_response_def raw_text_def exec_all_def replace_all_def match_here_def
        citation_regex_def trim_def isSpace_def grounding_citations_def citation_of_def
        citation_key_def Let_def)

section \<open>Properties of the citation marker\<close>















lemma first_seen_dedup: "distinct (first_seen S xs) \<and> set (first_seen S xs) = set xs - S"
  by (induction xs arbitrary: S) auto




text \<open>
  Without the hypothesis on the keys the deduplication is by the key, not by the pair:
  two different pairs with the same key give one citation.
\<close>

lemma citation_key_collision:
  "exec_all citation_regex
     (''[Source: a-b, Context: '' @ [CHR 0x22] @ ''c'' @ [CHR 0x22] @ ''][Source: a, Context: '' @
      [CHR 0x22] @ ''b-c'' @ [CHR 0x22] @ '']'')
     = [(Some ''a-b'', Some ''c''), (Some ''a'', Some ''b-c'')]
   \<and> citation_loop [(Some ''a-b'', Some ''c''), (Some ''a'', Some ''b-c'')] {} []
       = [\<lparr>cit_source = ''a-b'', cit_context = ''c''\<rparr>]"
  by (simp add: exec_all_def match_here_def citation_regex_def isSpace_def citation_of_def
        citation_key_def trim_def Let_def)

section \<open>Properties of sending\<close>




section \<open>Properties of the session\<close>

lemma handleSendMessage_start_processing:
  "handleSendMessage_start uuid now st text modelId attachments web = (call, st') \<Longrightarrow>
   (call = None \<longrightarrow> st' = st) \<and> (call \<noteq> None \<longrightarrow> isProcessing st')"
  by (auto simp: handleSendMessage_start_def Let_def split: option.splits if_splits)

lemma handleSubmit_processing:
  assumes "handleSubmit uuid now (ca, st) = (call, ca', st')"
  shows "(isProcessing st \<longrightarrow> call = None \<and> ca' = ca \<and> st' = st)
       \<and> (call = None \<longrightarrow> isProcessing st' = isProcessing st)
       \<and> (call \<noteq> None \<longrightarrow> isProcessing st')"
proof (cases "(trim (input ca) = [] \<and> length (pendingAttachments ca) = 0) \<or> isProcessing st")
  case True
  with assms show ?thesis by (auto simp: handleSubmit_def)
next
  case False
  obtain k s where s: "handleSendMessage_start uuid now st (input ca) (selectedModel ca)
                          (pendingAttachments ca) (useWebSearch ca) = (k, s)"
    by (cases "handleSendMessage_start uuid now st (input ca) (selectedModel ca)
                 (pendingAttachments ca) (useWebSearch ca)")
  with assms False have "call = k" and "st' = s"
    by (auto simp: handleSubmit_def Let_def)
  with handleSendMessage_start_processing [OF s] False show ?thesis by auto
qed

lemma handleSendMessage_finish_processing:
  "handleSendMessage_finish uuid now st k outcome = (err, st') \<Longrightarrow> \<not> isProcessing st'"
  by (auto simp: handleSendMessage_finish_def Let_def split: option.splits)

lemma handleFeedback_processing:
  "handleFeedback uuid now st messageId type = (err, st') \<Longrightarrow> isProcessing st' = isProcessing st"
  by (auto simp: handleFeedback_def Let_def split: option.splits if_splits sum.splits)


lemma step_one_in_flight:
  assumes "step c c'" and "one_in_flight c"
  shows "one_in_flight c'"
  using assms
proof (cases rule: step.cases)
  case (edit ca)
  with assms(2) show ?thesis by (simp add: one_in_flight_def)
next
  case (submit uuid now call ca' st')
  from handleSubmit_processing [OF submit(2)] assms(2) submit(1) show ?thesis
    by (cases call) (auto simp: one_in_flight_def)
next
  case (returns k ks uuid now outcome err st')
  from handleSendMessage_finish_processing [OF returns(3)] assms(2) returns(1,2) show ?thesis
    by (auto simp: one_in_flight_def)
next
  case (feedback uuid now messageId type err st')
  from handleFeedback_processing [OF feedback(2)] assms(2) feedback(1) show ?thesis
    by (simp add: one_in_flight_def)
next
  case (select baseId)
  with assms(2) show ?thesis by (simp add: one_in_flight_def onSelectBase_def)
next
  case logout
  with assms(2) show ?thesis by (simp add: one_in_flight_def handleLogout_def)
qed

lemma reachable_one_in_flight: "reachable c \<Longrightarrow> one_in_flight c"
proof (induction rule: reachable.induct)
  case (initial c)
  then show ?case by (simp add: one_in_flight_def)
next
  case (later c c')
  then show ?case by (blast intro: step_one_in_flight)
qed

text \<open>
  C9. In every configuration the session can reach, at most one call of
  \<open>generateResponse\<close> is in flight. While one is in flight a submit is rejected: it issues
  no call and leaves the form and the application state, so also the history, as they
  were; and whatever the next event is, there is still at most one call in flight.
\<close>

theorem one_generation_in_flight:
  assumes "reachable c"
  shows "length (inflight c) \<le> 1
       \<and> (inflight c \<noteq> [] \<longrightarrow>
            handleSubmit uuid now (area c, app c) = (None, area c, app c)
            \<and> (\<forall>c'. step c c' \<longrightarrow> length (inflight c') \<le> 1))"
proof -
  from assms have i: "one_in_flight c" by (rule reachable_one_in_flight)
  have "handleSubmit uuid now (area c, app c) = (None, area c, app c)" if "inflight c \<noteq> []"
  proof -
    from i that have "isProcessing (app c)" by (simp add: one_in_flight_def)
    then show ?thesis by (simp add: handleSubmit_def)
  qed
  moreover have "length (inflight c') \<le> 1" if "step c c'" for c'
    using step_one_in_flight [OF that i] by (simp add: one_in_flight_def)
  ultimately show ?thesis using i by (simp add: one_in_flight_def)
qed

lemma busy_config_eq:
  "busy_config =
     \<lparr>area = \<lparr>input = [], selectedModel = fast, useWebSearch = False, pendingAttachments = []\<rparr>,
      app = chat_state\<lparr>chatHistory := [''kb-1'' \<mapsto> [question1, answer1, answer2, hello]],
                       isProcessing := True\<rparr>,
      inflight = [\<lparr>call_baseId = ''kb-1'', call_apiKey = ''key'', call_prompt = ''hello'',
                   call_files = [], call_history = apiHistory_of [question1, answer1, answer2, hello],
                   call_modelId = fast, call_attachments = [], call_useWebSearch = False,
                   call_sharedInsights = []\<rparr>]\<rparr>"
  by (simp add: busy_config_def idle_config_def handleSubmit_def handleSendMessage_start_def
        chat_state_def kb1_def hello_def trim_def isSpace_def Let_def)

theorem one_generation_in_flight_witness:
  "length (inflight busy_config) = 1
   \<and> isProcessing (app busy_config)
   \<and> chatHistory (app busy_config) ''kb-1'' = Some [question1, answer1, answer2, hello]
   \<and> handleSubmit ''m-6'' 40 (area busy_config\<lparr>input := ''again''\<rparr>, app busy_config)
       = (None, area busy_config\<lparr>input := ''again''\<rparr>, app busy_config)"
proof -
  have "reachable idle_config"
    by (rule reachable.initial) (simp_all add: idle_config_def chat_state_def)
  moreover have "step idle_config busy_config"
    unfolding busy_config_def
    by (cases "handleSubmit ''m-4'' 30 (area idle_config, app idle_config)")
       (auto intro: step.submit)
  ultimately have "reachable busy_config" by (rule reachable.later)
  moreover have "step busy_config (busy_config\<lparr>area := area busy_config\<lparr>input := ''again''\<rparr>\<rparr>)"
    by (rule step.edit)
  ultimately have r: "reachable (busy_config\<lparr>area := area busy_config\<lparr>input := ''again''\<rparr>\<rparr>)"
    by (rule reachable.later)
  have n: "inflight (busy_config\<lparr>area := area busy_config\<lparr>input := ''again''\<rparr>\<rparr>) \<noteq> []"
    by (simp add: busy_config_eq)
  from one_generation_in_flight [OF r, of "''m-6''" 40] n
  have "handleSubmit ''m-6'' 40 (area busy_config\<lparr>input := ''again''\<rparr>, app busy_config)
       = (None, area busy_config\<lparr>input := ''again''\<rparr>, app busy_config)"
    by simp
  then show ?thesis
    by (simp add: busy_config_eq)
qed

section \<open>Properties of the size ceilings\<close>












end
